theory Spec2Isabelle
  imports Main
begin

section \<open>Integral types and their limits\<close>

text \<open>
  The templates of \<^verbatim>\<open>integral_io.hpp\<close> are instantiated with an integral type
  \<^verbatim>\<open>Integer\<close> and select their specialisation from \<^verbatim>\<open>sizeof(Integer)\<close> and
  \<^verbatim>\<open>std::is_signed<Integer>::value\<close>; the one-byte specialisations also use
  \<^verbatim>\<open>std::numeric_limits<Integer>\<close>. The model lists the standard integral types of a
  platform with 8-bit bytes and two's complement: \<^verbatim>\<open>bool\<close>, the 8-bit character types
  (\<^verbatim>\<open>signed char\<close>, \<^verbatim>\<open>unsigned char\<close>; plain \<^verbatim>\<open>char\<close> is one of the two), and the
  16-, 32- and 64-bit integers. A value of a type is the mathematical integer it denotes.
\<close>

datatype integer_type =
  Bool | Int8 | UInt8 | Int16 | UInt16 | Int32 | UInt32 | Int64 | UInt64

fun size_of :: "integer_type \<Rightarrow> nat" where
  "size_of Bool = 1"
| "size_of Int8 = 1"
| "size_of UInt8 = 1"
| "size_of Int16 = 2"
| "size_of UInt16 = 2"
| "size_of Int32 = 4"
| "size_of UInt32 = 4"
| "size_of Int64 = 8"
| "size_of UInt64 = 8"

fun is_signed :: "integer_type \<Rightarrow> bool" where
  "is_signed Int8 = True"
| "is_signed Int16 = True"
| "is_signed Int32 = True"
| "is_signed Int64 = True"
| "is_signed _ = False"

fun numeric_limits_max :: "integer_type \<Rightarrow> int" where
  "numeric_limits_max Bool = 1"
| "numeric_limits_max Int8 = 127"
| "numeric_limits_max UInt8 = 255"
| "numeric_limits_max Int16 = 32767"
| "numeric_limits_max UInt16 = 65535"
| "numeric_limits_max Int32 = 2147483647"
| "numeric_limits_max UInt32 = 4294967295"
| "numeric_limits_max Int64 = 9223372036854775807"
| "numeric_limits_max UInt64 = 18446744073709551615"

definition numeric_limits_min :: "integer_type \<Rightarrow> int" where
  "numeric_limits_min T = (if is_signed T then - numeric_limits_max T - 1 else 0)"

definition representable :: "integer_type \<Rightarrow> int \<Rightarrow> bool" where
  "representable T v \<longleftrightarrow> numeric_limits_min T \<le> v \<and> v \<le> numeric_limits_max T"

text \<open>
  \<^verbatim>\<open>static_cast<T>(x)\<close> of an integer value \<open>x\<close>: a conversion to \<^verbatim>\<open>bool\<close> tests
  for non-zero, a conversion to an unsigned type reduces modulo \<open>2 ^ bits\<close>, and a
  conversion to a signed type keeps the low bits in two's complement. A representable
  value is unchanged.
\<close>

definition static_cast :: "integer_type \<Rightarrow> int \<Rightarrow> int" where
  "static_cast T x =
     (if T = Bool then (if x = 0 then 0 else 1)
      else if is_signed T
        then (x + 2 ^ (8 * size_of T - 1)) mod 2 ^ (8 * size_of T) - 2 ^ (8 * size_of T - 1)
        else x mod 2 ^ (8 * size_of T))"

text \<open>
  Arithmetic on operands narrower than \<^verbatim>\<open>int\<close> is done in \<^verbatim>\<open>int\<close> after the integral
  promotions; \<^verbatim>\<open>int\<close> is taken to be 32 bits wide. A signed overflow is undefined
  behaviour: the checked operations return \<open>None\<close> there.
\<close>

definition int_add :: "int \<Rightarrow> int \<Rightarrow> int option" where
  "int_add a b = (if representable Int32 (a + b) then Some (a + b) else None)"

definition int_mul :: "int \<Rightarrow> int \<Rightarrow> int option" where
  "int_mul a b = (if representable Int32 (a * b) then Some (a * b) else None)"

section \<open>The streams\<close>

text \<open>
  The wrappers write with \<^verbatim>\<open>os << x\<close> to a \<^verbatim>\<open>std::basic_ostream\<close> and read with
  \<^verbatim>\<open>is >> x\<close> from a \<^verbatim>\<open>std::basic_istream\<close>. The two operators are the external
  text sink and text source of the specification; they belong to the C++ standard
  library and are not part of the repository. The definitions of this section stand
  for them, for streams in their default state (decimal base, no field width) and
  texts without leading white space. An output stream is the text written so far; an
  input stream is the text not yet consumed together with its \<^verbatim>\<open>failbit\<close>.
\<close>

record ostream =
  written :: string

record istream =
  buf :: string
  failbit :: bool

text \<open>\<^verbatim>\<open>is.setstate(std::ios_base::failbit)\<close>, the one stream call the wrappers make themselves.\<close>

definition setstate_failbit :: "istream \<Rightarrow> istream" where
  "setstate_failbit is = is\<lparr>failbit := True\<rparr>"

subsection \<open>Decimal numerals\<close>

definition digit_char :: "nat \<Rightarrow> char" where
  "digit_char d = char_of (of_char CHR ''0'' + d)"

definition is_digit :: "char \<Rightarrow> bool" where
  "is_digit c \<longleftrightarrow> (48::nat) \<le> of_char c \<and> (of_char c :: nat) \<le> 57"

definition digit_val :: "char \<Rightarrow> nat" where
  "digit_val c = of_char c - 48"

text \<open>
  Modelled from the spec: the decimal text that the external text sink renders for a
  value (\<^verbatim>\<open>std::num_put\<close>, absent from the repository). The digits are produced from
  the least significant one, each put in front of those already there; a negative
  value has a minus sign in front of the digits of its magnitude.
\<close>

function put_digits :: "nat \<Rightarrow> string \<Rightarrow> string" where
  "put_digits n acc =
     (if n < 10 then digit_char n # acc
      else put_digits (n div 10) (digit_char (n mod 10) # acc))"
  by pat_completeness auto
termination
  by (relation "measure fst") auto

definition decimal :: "int \<Rightarrow> string" where
  "decimal v = (if v < 0 then CHR ''-'' # put_digits (nat (- v)) [] else put_digits (nat v) [])"

text \<open>
  Modelled from the spec: the digits that the external text source consumes
  (\<^verbatim>\<open>std::num_get\<close>, absent from the repository). The value is accumulated from the
  left; reading stops at the first character that is not a digit, which stays in the
  stream.
\<close>

fun get_digits :: "string \<Rightarrow> nat \<Rightarrow> nat \<times> string" where
  "get_digits [] acc = (acc, [])"
| "get_digits (c # cs) acc =
     (if is_digit c then get_digits cs (10 * acc + digit_val c) else (acc, c # cs))"

subsection \<open>Insertion and extraction\<close>

text \<open>
  Modelled from the spec: the external text sink, \<^verbatim>\<open>os << x\<close> for \<open>x\<close> of type \<open>U\<close>
  (\<^verbatim>\<open>std::basic_ostream\<close>, absent from the repository). One-byte character types are
  written as an individual character, the one whose code is \<open>x\<close>; this is the defect
  the wrappers are there to correct. A value of any other integral type is rendered as
  decimal text (\<^verbatim>\<open>bool\<close> as 0 or 1).
\<close>

definition glyph :: "int \<Rightarrow> string" where
  "glyph x = [char_of x]"

definition ostream_insert :: "integer_type \<Rightarrow> int \<Rightarrow> ostream \<Rightarrow> ostream" where
  "ostream_insert U x os =
     os\<lparr>written := written os @ (if U = Int8 \<or> U = UInt8 then glyph x else decimal x)\<rparr>"

text \<open>
  Modelled from the spec: the external text source, \<^verbatim>\<open>is >> x\<close> for a variable \<open>x\<close> of
  a type \<open>U\<close> of 16 bits or more (\<^verbatim>\<open>std::basic_istream\<close>, absent from the repository).
  It consumes decimal text, an optional sign and then digits, and yields a value of
  \<open>U\<close> or signals failure by \<^verbatim>\<open>failbit\<close>, for malformed text and for text out of the
  range of \<open>U\<close>. What is stored in \<open>x\<close> on a failure is what the C++ standard
  prescribes since C++11, the language the header is written in. The result is the
  value stored in \<open>x\<close> (\<open>None\<close> when \<open>x\<close> is not written at all) and the stream
  afterwards.
  \<^item> A stream that has already failed is not read, and \<open>x\<close> is left as it was.
  \<^item> A stream at the end of its input fails before anything is read (the sentry of the
    operator sets \<^verbatim>\<open>failbit\<close>), and \<open>x\<close> is left as it was.
  \<^item> Text that is not at its end and has no digit after the optional sign stores 0 and
    sets \<^verbatim>\<open>failbit\<close>.
  \<^item> A numeral outside the range of \<open>U\<close> stores the nearest limit of \<open>U\<close> and sets
    \<^verbatim>\<open>failbit\<close>. For an unsigned \<open>U\<close> a negative numeral is in range when its
    magnitude is, and is stored negated modulo \<open>2 ^ bits\<close>.
  \<^item> Otherwise the value of the numeral is stored.
\<close>

definition istream_extract :: "integer_type \<Rightarrow> istream \<Rightarrow> int option \<times> istream" where
  "istream_extract U is =
     (if failbit is then (None, is)
      else if buf is = [] then (None, setstate_failbit is)
      else
        let neg = (case buf is of c # _ \<Rightarrow> c = CHR ''-'' | [] \<Rightarrow> False);
            body = (case buf is of c # cs \<Rightarrow> if c = CHR ''-'' \<or> c = CHR ''+'' then cs else c # cs
                    | [] \<Rightarrow> [])
        in case body of
             [] \<Rightarrow> (Some 0, setstate_failbit (is\<lparr>buf := body\<rparr>))
           | d # _ \<Rightarrow>
               if \<not> is_digit d then (Some 0, setstate_failbit (is\<lparr>buf := body\<rparr>))
               else
                 let (m, rest) = get_digits body 0;
                     is' = is\<lparr>buf := rest\<rparr>
                 in if is_signed U then
                      (let v = (if neg then - int m else int m)
                       in if v > numeric_limits_max U
                            then (Some (numeric_limits_max U), setstate_failbit is')
                          else if v < numeric_limits_min U
                            then (Some (numeric_limits_min U), setstate_failbit is')
                          else (Some v, is'))
                    else
                      (if int m > numeric_limits_max U
                         then (Some (numeric_limits_max U), setstate_failbit is')
                       else (Some (if neg then static_cast U (- int m) else int m), is')))"

section \<open>The width classifier\<close>

text \<open>
  \<^verbatim>\<open>integral_io_trait<Integer>::type\<close>: the primary template yields the type itself,
  the specialisation for size 1 and signed yields \<^verbatim>\<open>std::int16_t\<close>, the one for size 1
  and unsigned yields \<^verbatim>\<open>std::uint16_t\<close>.
\<close>

definition integral_io_trait :: "integer_type \<Rightarrow> integer_type" where
  "integral_io_trait T =
     (if size_of T = 1 then (if is_signed T then Int16 else UInt16) else T)"

section \<open>The wrappers\<close>

text \<open>
  Each wrapper holds one member, \<^verbatim>\<open>m_value\<close>: a copy of the value in
  \<^verbatim>\<open>integral_output_wrapper\<close>, a reference to the caller's variable in
  \<^verbatim>\<open>integral_io_wrapper\<close>. The model passes the content of \<^verbatim>\<open>m_value\<close> as an
  argument and returns the new content where the wrapper assigns to it. The template
  arguments that select a specialisation are the tests on \<open>size_of T\<close> and
  \<open>is_signed T\<close>.

  \<^verbatim>\<open>integral_output_wrapper::output\<close> writes \<^verbatim>\<open>m_value\<close> itself in the primary template
  and \<^verbatim>\<open>static_cast<integral_io_t<Integer>>(m_value)\<close> in the one-byte specialisation.
  \<^verbatim>\<open>integral_io_wrapper::output\<close> writes \<^verbatim>\<open>m_value\<close> itself in the primary template and
  \<^verbatim>\<open>static_cast<std::int16_t>(m_value)\<close> in both one-byte specialisations.
\<close>

definition integral_output_wrapper_output :: "integer_type \<Rightarrow> int \<Rightarrow> ostream \<Rightarrow> ostream" where
  "integral_output_wrapper_output T m_value os =
     (if size_of T = 1
        then ostream_insert (integral_io_trait T) (static_cast (integral_io_trait T) m_value) os
      else ostream_insert T m_value os)"

definition integral_io_wrapper_output :: "integer_type \<Rightarrow> int \<Rightarrow> ostream \<Rightarrow> ostream" where
  "integral_io_wrapper_output T m_value os =
     (if size_of T = 1
        then (if is_signed T
                then ostream_insert Int16 (static_cast Int16 m_value) os
              else ostream_insert Int16 (static_cast Int16 m_value) os)
      else ostream_insert T m_value os)"

text \<open>
  The primary template of \<^verbatim>\<open>integral_io_wrapper::input\<close> is \<^verbatim>\<open>is >> m_value\<close>: the
  stream writes the caller's variable, or leaves it when the stream had failed before.
\<close>

definition input_generic :: "integer_type \<Rightarrow> int \<Rightarrow> istream \<Rightarrow> (int \<times> istream) option" where
  "input_generic T m_value is =
     (case istream_extract T is of
        (None, is') \<Rightarrow> Some (m_value, is')
      | (Some v, is') \<Rightarrow> Some (v, is'))"

text \<open>
  The one-byte specialisations of \<^verbatim>\<open>integral_io_wrapper::input\<close> declare
  \<^verbatim>\<open>std::int16_t temp\<close> without an initial value and read it with \<^verbatim>\<open>is >> temp\<close>
  (\<open>input_signed\<close>, \<open>input_unsigned\<close>). The statements after the read are
  \<open>narrow_signed\<close> and \<open>narrow_unsigned\<close>; they take the content of \<open>temp\<close> and the
  stream as the read left them, and return the new content of \<^verbatim>\<open>m_value\<close> and the
  stream. The comparisons and the arithmetic are those of \<^verbatim>\<open>int\<close>, to which both
  operands are promoted. When the read did not write \<open>temp\<close> (the stream had failed
  before, or was at the end of its input), the comparisons read an indeterminate value,
  which is undefined behaviour: the result is \<open>None\<close>, as it is for an overflow of the
  arithmetic.
\<close>

definition narrow_signed :: "integer_type \<Rightarrow> int \<Rightarrow> istream \<Rightarrow> (int \<times> istream) option" where
  "narrow_signed T temp is =
     (if temp > static_cast Int16 (numeric_limits_max T)
        then Some (numeric_limits_max T, setstate_failbit is)
      else if temp < static_cast Int16 (numeric_limits_min T)
        then Some (numeric_limits_min T, setstate_failbit is)
      else Some (static_cast T temp, is))"

definition narrow_unsigned :: "integer_type \<Rightarrow> int \<Rightarrow> istream \<Rightarrow> (int \<times> istream) option" where
  "narrow_unsigned T temp is =
     (if temp > static_cast Int16 (numeric_limits_max T)
        then Some (numeric_limits_max T, setstate_failbit is)
      else if temp < 0 then
        (case int_mul temp (- 1) of
           None \<Rightarrow> None
         | Some magnitude \<Rightarrow>
             if magnitude \<le> static_cast Int16 (numeric_limits_max T) then
               (case int_add (numeric_limits_max T) temp of
                  None \<Rightarrow> None
                | Some s \<Rightarrow>
                    (case int_add s 1 of
                       None \<Rightarrow> None
                     | Some s' \<Rightarrow> Some (static_cast T s', is)))
             else Some (numeric_limits_max T, setstate_failbit is))
      else Some (static_cast T temp, is))"

definition input_signed :: "integer_type \<Rightarrow> istream \<Rightarrow> (int \<times> istream) option" where
  "input_signed T is =
     (case istream_extract Int16 is of
        (None, is') \<Rightarrow> None
      | (Some temp, is') \<Rightarrow> narrow_signed T temp is')"

definition input_unsigned :: "integer_type \<Rightarrow> istream \<Rightarrow> (int \<times> istream) option" where
  "input_unsigned T is =
     (case istream_extract Int16 is of
        (None, is') \<Rightarrow> None
      | (Some temp, is') \<Rightarrow> narrow_unsigned T temp is')"

definition integral_io_wrapper_input :: "integer_type \<Rightarrow> int \<Rightarrow> istream \<Rightarrow> (int \<times> istream) option" where
  "integral_io_wrapper_input T m_value is =
     (if size_of T = 1
        then (if is_signed T then input_signed T is else input_unsigned T is)
      else input_generic T m_value is)"

section \<open>Facts about the numerals and the streams\<close>

declare put_digits.simps [simp del]

lemma one_byte_signed: "size_of T = 1 \<Longrightarrow> is_signed T \<Longrightarrow> T = Int8"
  by (cases T) simp_all

lemma one_byte_unsigned: "size_of T = 1 \<Longrightarrow> \<not> is_signed T \<Longrightarrow> T = Bool \<or> T = UInt8"
  by (cases T) simp_all

lemma static_cast_representable: "representable T v \<Longrightarrow> static_cast T v = v"
  by (cases T) (auto simp: static_cast_def representable_def numeric_limits_min_def)

lemma is_digit_digit_char: "d < 10 \<Longrightarrow> is_digit (digit_char d)"
  by (simp add: is_digit_def digit_char_def)

lemma digit_val_digit_char: "d < 10 \<Longrightarrow> digit_val (digit_char d) = d"
  by (simp add: digit_val_def digit_char_def)

lemma put_digits_small: "n < 10 \<Longrightarrow> put_digits n acc = digit_char n # acc"
  by (simp add: put_digits.simps)

lemma put_digits_large:
  "\<not> n < 10 \<Longrightarrow> put_digits n acc = put_digits (n div 10) (digit_char (n mod 10) # acc)"
  by (simp add: put_digits.simps)

lemma put_digits_acc: "put_digits n acc = put_digits n [] @ acc"
proof (induction n arbitrary: acc rule: less_induct)
  case (less n)
  show ?case
  proof (cases "n < 10")
    case True
    then show ?thesis by (simp add: put_digits_small)
  next
    case False
    then have smaller: "n div 10 < n" by simp
    have "put_digits n acc = put_digits (n div 10) [] @ digit_char (n mod 10) # acc"
      using False less.IH [OF smaller, of "digit_char (n mod 10) # acc"]
      by (simp add: put_digits_large)
    moreover have "put_digits n [] = put_digits (n div 10) [] @ [digit_char (n mod 10)]"
      using False less.IH [OF smaller, of "[digit_char (n mod 10)]"]
      by (simp add: put_digits_large)
    ultimately show ?thesis by simp
  qed
qed

lemma put_digits_snoc:
  "\<not> n < 10 \<Longrightarrow> put_digits n [] = put_digits (n div 10) [] @ [digit_char (n mod 10)]"
  using put_digits_acc [of "n div 10" "[digit_char (n mod 10)]"]
  by (simp add: put_digits_large)

lemma put_digits_all_digits: "c \<in> set (put_digits n []) \<Longrightarrow> is_digit c"
proof (induction n arbitrary: c rule: less_induct)
  case (less n)
  show ?case
  proof (cases "n < 10")
    case True
    with less.prems show ?thesis by (simp add: put_digits_small is_digit_digit_char)
  next
    case False
    then have smaller: "n div 10 < n" by simp
    from less.prems False
    have "c \<in> set (put_digits (n div 10) []) \<or> c = digit_char (n mod 10)"
      by (auto simp: put_digits_snoc)
    then show ?thesis
      using less.IH [OF smaller] by (auto simp: is_digit_digit_char)
  qed
qed

lemma put_digits_nonempty: "put_digits n [] \<noteq> []"
  by (cases "n < 10") (simp_all add: put_digits_small put_digits_snoc)

lemma get_digits_all_digits:
  "\<forall>c \<in> set xs. is_digit c \<Longrightarrow> get_digits xs a = (foldl (\<lambda>a c. 10 * a + digit_val c) a xs, [])"
  by (induction xs arbitrary: a) simp_all

lemma value_put_digits: "foldl (\<lambda>a c. 10 * a + digit_val c) 0 (put_digits n []) = n"
proof (induction n rule: less_induct)
  case (less n)
  show ?case
  proof (cases "n < 10")
    case True
    then show ?thesis by (simp add: put_digits_small digit_val_digit_char)
  next
    case False
    then have "n div 10 < n" by simp
    from less.IH [OF this] False show ?thesis
      by (simp add: put_digits_snoc digit_val_digit_char)
  qed
qed

lemma get_digits_put_digits: "get_digits (put_digits n []) 0 = (n, [])"
  by (simp add: get_digits_all_digits put_digits_all_digits value_put_digits)

lemma put_digits_head:
  "\<exists>d ds. put_digits n [] = d # ds \<and> is_digit d"
  using put_digits_nonempty [of n] put_digits_all_digits [of _ n]
  by (cases "put_digits n []") auto

lemma is_digit_not_sign: "is_digit d \<Longrightarrow> d \<noteq> CHR ''-'' \<and> d \<noteq> CHR ''+''"
  by (auto simp: is_digit_def)

lemma extract_decimal:
  assumes "representable U v"
  shows "istream_extract U \<lparr>buf = decimal v, failbit = False\<rparr> = (Some v, \<lparr>buf = [], failbit = False\<rparr>)"
proof (cases "v < 0")
  case True
  obtain d ds where ds: "put_digits (nat (- v)) [] = d # ds" "is_digit d"
    using put_digits_head by blast
  have g: "get_digits (d # ds) 0 = (nat (- v), [])"
    using get_digits_put_digits [of "nat (- v)"] ds by simp
  from True assms have s: "is_signed U"
    by (auto simp: representable_def numeric_limits_min_def split: if_splits)
  show ?thesis
    using True assms s ds g
    by (simp add: istream_extract_def decimal_def representable_def Let_def del: get_digits.simps)
next
  case False
  obtain d ds where ds: "put_digits (nat v) [] = d # ds" "is_digit d"
    using put_digits_head by blast
  have g: "get_digits (d # ds) 0 = (nat v, [])"
    using get_digits_put_digits [of "nat v"] ds by simp
  have "numeric_limits_min U \<le> 0" by (cases U) (simp_all add: numeric_limits_min_def)
  then show ?thesis
    using False assms ds g is_digit_not_sign [OF ds(2)]
    by (simp add: istream_extract_def decimal_def representable_def Let_def del: get_digits.simps)
qed


lemma setstate_failbit_simps [simp]:
  "failbit (setstate_failbit is) = True" "buf (setstate_failbit is) = buf is"
  by (simp_all add: setstate_failbit_def)


lemma extract_Int16_range:
  "istream_extract Int16 is = (Some b, is') \<Longrightarrow> representable Int16 b"
  by (auto simp: istream_extract_def representable_def numeric_limits_min_def Let_def
      split: if_splits list.splits prod.splits)

lemma extract_Int16_failed:
  "istream_extract Int16 is = (Some b, is') \<Longrightarrow> failbit is' \<Longrightarrow> b = 0 \<or> b = 32767 \<or> b = - 32768"
  by (auto simp: istream_extract_def numeric_limits_min_def Let_def
      split: if_splits list.splits prod.splits)

lemma narrow_signed_eq:
  "narrow_signed Int8 b is =
     Some (if b > 127 then (127, setstate_failbit is)
           else if b < - 128 then (- 128, setstate_failbit is)
           else (b, is))"
  by (simp add: narrow_signed_def static_cast_def numeric_limits_min_def
      static_cast_representable representable_def)

lemma wrap_mod: "- m \<le> b \<Longrightarrow> b < 0 \<Longrightarrow> (b::int) mod (m + 1) = m + b + 1"
proof -
  assume range: "- m \<le> b" "b < 0"
  have "b mod (m + 1) = (b + (m + 1)) mod (m + 1)"
    by simp
  also have "\<dots> = b + (m + 1)"
    using range by (intro mod_pos_pos_trivial) simp_all
  finally show ?thesis by simp
qed

lemma narrow_unsigned_eq:
  assumes "T = Bool \<or> T = UInt8" and "representable Int16 b"
  shows "narrow_unsigned T b is =
     Some (if b > numeric_limits_max T then (numeric_limits_max T, setstate_failbit is)
           else if b < 0 then
             (if - b \<le> numeric_limits_max T then (numeric_limits_max T + b + 1, is)
              else (numeric_limits_max T, setstate_failbit is))
           else (b, is))"
  using assms
  by (auto simp: narrow_unsigned_def static_cast_def numeric_limits_min_def
      int_mul_def int_add_def representable_def wrap_mod [of 255, simplified])

section \<open>Facts about the wrappers\<close>

lemma extract_unread:
  "failbit is \<or> buf is = [] \<Longrightarrow> fst (istream_extract U is) = None"
  by (auto simp: istream_extract_def)


lemma input_one_byte_unread:
  assumes "size_of T = 1" and "failbit is \<or> buf is = []"
  shows "integral_io_wrapper_input T m_value is = None"
  using assms extract_unread [OF assms(2), of Int16]
  by (cases "istream_extract Int16 is")
    (simp add: integral_io_wrapper_input_def input_signed_def input_unsigned_def)

lemma input_signed_unfold:
  "size_of T = 1 \<Longrightarrow> is_signed T \<Longrightarrow> istream_extract Int16 is = (Some b, is') \<Longrightarrow>
   integral_io_wrapper_input T m_value is = narrow_signed Int8 b is'"
  using one_byte_signed [of T]
  by (simp add: integral_io_wrapper_input_def input_signed_def)

lemma input_unsigned_unfold:
  "size_of T = 1 \<Longrightarrow> \<not> is_signed T \<Longrightarrow> istream_extract Int16 is = (Some b, is') \<Longrightarrow>
   integral_io_wrapper_input T m_value is = narrow_unsigned T b is'"
  by (simp add: integral_io_wrapper_input_def input_unsigned_def)

lemma one_byte_promoted:
  "size_of T = 1 \<Longrightarrow> representable T v \<Longrightarrow>
   representable Int16 v \<and> representable (integral_io_trait T) v"
  by (cases T) (simp_all add: representable_def numeric_limits_min_def integral_io_trait_def)

lemma trait_not_char: "integral_io_trait T \<noteq> Int8 \<and> integral_io_trait T \<noteq> UInt8"
  by (cases T) (simp_all add: integral_io_trait_def)

lemma output_wrapper_one_byte:
  assumes "size_of T = 1" and "representable T v"
  shows "written (integral_output_wrapper_output T v os) = written os @ decimal v"
  using assms one_byte_promoted [OF assms] trait_not_char [of T]
  by (simp add: integral_output_wrapper_output_def ostream_insert_def static_cast_representable)

lemma io_wrapper_one_byte:
  assumes "size_of T = 1" and "representable T v"
  shows "written (integral_io_wrapper_output T v os) = written os @ decimal v"
  using assms one_byte_promoted [OF assms]
  by (simp add: integral_io_wrapper_output_def ostream_insert_def static_cast_representable)

lemma put_digits_long:
  assumes "\<not> n < 10"
  shows "2 \<le> length (put_digits n [])"
proof -
  have "put_digits n [] = put_digits (n div 10) [] @ [digit_char (n mod 10)]"
    using assms by (rule put_digits_snoc)
  then have "length (put_digits n []) = Suc (length (put_digits (n div 10) []))"
    by simp
  moreover have "0 < length (put_digits (n div 10) [])"
    using put_digits_nonempty [of "n div 10"] by blast
  ultimately show ?thesis by linarith
qed

lemma decimal_not_glyph: "decimal v \<noteq> glyph v"
proof (cases "v < 0")
  case True
  then show ?thesis
    using put_digits_nonempty [of "nat (- v)"] by (simp add: decimal_def glyph_def)
next
  case False
  show ?thesis
  proof (cases "nat v < 10")
    case True
    have "char_of v = char_of (nat v)"
      using False by (metis char_of_nat int_nat_eq not_le not_less)
    moreover have "(48 + nat v) mod 256 \<noteq> nat v mod 256"
      using True by simp
    ultimately show ?thesis
      using False True by (simp add: decimal_def glyph_def put_digits_small digit_char_def)
  next
    case large: False
    from put_digits_long [OF this] have "length (decimal v) \<noteq> length (glyph v)"
      using False by (simp add: decimal_def glyph_def)
    then show ?thesis by auto
  qed
qed

lemma limits_representable:
  "representable T (numeric_limits_max T)" "representable T (numeric_limits_min T)"
  by (cases T; simp add: representable_def numeric_limits_min_def)+

lemma reparse_one_byte:
  assumes "size_of T = 1" and "representable T v"
  shows "integral_io_wrapper_input T m_value \<lparr>buf = decimal v, failbit = False\<rparr>
           = Some (v, \<lparr>buf = [], failbit = False\<rparr>)"
proof -
  have wide: "representable Int16 v"
    using one_byte_promoted [OF assms] by simp
  note read = extract_decimal [OF wide]
  show ?thesis
  proof (cases "is_signed T")
    case True
    have "integral_io_wrapper_input T m_value \<lparr>buf = decimal v, failbit = False\<rparr>
        = narrow_signed Int8 v \<lparr>buf = [], failbit = False\<rparr>"
      using assms(1) True read by (rule input_signed_unfold)
    then show ?thesis
      using assms(2) one_byte_signed [OF assms(1) True]
      by (simp add: narrow_signed_eq representable_def numeric_limits_min_def)
  next
    case False
    then have T: "T = Bool \<or> T = UInt8"
      using assms(1) by (simp add: one_byte_unsigned)
    have "integral_io_wrapper_input T m_value \<lparr>buf = decimal v, failbit = False\<rparr>
        = narrow_unsigned T v \<lparr>buf = [], failbit = False\<rparr>"
      using assms(1) False read by (rule input_unsigned_unfold)
    then show ?thesis
      using assms(2) False
      by (simp add: narrow_unsigned_eq [OF T wide] representable_def numeric_limits_min_def)
  qed
qed

section \<open>The claims\<close>

subsection \<open>Wrap-around of small negative values\<close>

text \<open>
  Claim C1. For a one-byte unsigned target \<open>T\<close> and a buffer \<open>b\<close> read by the stream
  with \<open>- max T \<le> b < 0\<close>, the parse stores \<open>max T + b + 1\<close> in the target, which is
  \<open>max T + 1\<close> minus the magnitude and also \<open>b mod (max T + 1)\<close>, and the stream is
  left as the read left it, without \<^verbatim>\<open>failbit\<close>.
\<close>

theorem unsigned_wraparound:
  assumes "size_of T = 1" and "\<not> is_signed T"
    and "istream_extract Int16 is = (Some b, is')"
    and "- numeric_limits_max T \<le> b" and "b < 0"
  shows "integral_io_wrapper_input T m_value is = Some (numeric_limits_max T + b + 1, is')
       \<and> numeric_limits_max T + b + 1 = numeric_limits_max T + 1 - (- b)
       \<and> numeric_limits_max T + b + 1 = b mod (numeric_limits_max T + 1)
       \<and> \<not> failbit is'"
proof -
  from assms(1,2) have T: "T = Bool \<or> T = UInt8"
    by (rule one_byte_unsigned)
  have range: "representable Int16 b"
    using assms(3) by (rule extract_Int16_range)
  have below: "\<not> b > numeric_limits_max T"
    using T assms(5) by auto
  have "integral_io_wrapper_input T m_value is = narrow_unsigned T b is'"
    using assms(1-3) by (simp add: integral_io_wrapper_input_def input_unsigned_def)
  also have "\<dots> = Some (numeric_limits_max T + b + 1, is')"
    using assms(4,5) below by (simp add: narrow_unsigned_eq [OF T range])
  finally have result: "integral_io_wrapper_input T m_value is = Some (numeric_limits_max T + b + 1, is')" .
  have "\<not> failbit is'"
    using extract_Int16_failed [OF assms(3)] assms(4,5) T by auto
  with result wrap_mod [OF assms(4,5)] show ?thesis
    by simp
qed

text \<open>
  The texts \<^verbatim>\<open>-1\<close> and \<^verbatim>\<open>-255\<close> read into an 8-bit unsigned target give 255 and 1,
  with no failure.
\<close>

theorem unsigned_wraparound_witness:
  "integral_io_wrapper_input UInt8 0 \<lparr>buf = ''-1'', failbit = False\<rparr>
     = Some (255, \<lparr>buf = [], failbit = False\<rparr>)
   \<and> integral_io_wrapper_input UInt8 0 \<lparr>buf = ''-255'', failbit = False\<rparr>
     = Some (1, \<lparr>buf = [], failbit = False\<rparr>)"
proof -
  have one: "istream_extract Int16 \<lparr>buf = ''-1'', failbit = False\<rparr>
      = (Some (- 1), \<lparr>buf = [], failbit = False\<rparr>)"
    by (simp add: istream_extract_def is_digit_def digit_val_def numeric_limits_min_def)
  have two: "istream_extract Int16 \<lparr>buf = ''-255'', failbit = False\<rparr>
      = (Some (- 255), \<lparr>buf = [], failbit = False\<rparr>)"
    by (simp add: istream_extract_def is_digit_def digit_val_def numeric_limits_min_def)
  show ?thesis
    using unsigned_wraparound [of UInt8, OF _ _ one, of 0]
      unsigned_wraparound [of UInt8, OF _ _ two, of 0]
    by simp
qed

subsection \<open>Narrowing into a signed byte\<close>

text \<open>
  Claim C2. For a one-byte signed target \<open>T\<close> and a buffer \<open>b\<close> read by the stream:
  above \<open>max T\<close> the target becomes \<open>max T\<close> and \<^verbatim>\<open>failbit\<close> is set; below \<open>min T\<close> the
  target becomes \<open>min T\<close> and \<^verbatim>\<open>failbit\<close> is set; from \<open>min T\<close> to \<open>max T\<close>, both
  included, the target becomes \<open>b\<close>, which the conversion to \<open>T\<close> does not change, and
  the stream is left as the read left it.
\<close>

theorem signed_narrowing:
  assumes "size_of T = 1" and "is_signed T"
    and "istream_extract Int16 is = (Some b, is')"
  shows "(numeric_limits_max T < b \<longrightarrow>
            integral_io_wrapper_input T m_value is
              = Some (numeric_limits_max T, is'\<lparr>failbit := True\<rparr>))
       \<and> (b < numeric_limits_min T \<longrightarrow>
            integral_io_wrapper_input T m_value is
              = Some (numeric_limits_min T, is'\<lparr>failbit := True\<rparr>))
       \<and> (numeric_limits_min T \<le> b \<and> b \<le> numeric_limits_max T \<longrightarrow>
            integral_io_wrapper_input T m_value is = Some (b, is') \<and> static_cast T b = b)"
proof -
  from assms(1,2) have T: "T = Int8"
    by (rule one_byte_signed)
  have "integral_io_wrapper_input T m_value is = narrow_signed Int8 b is'"
    using assms by (rule input_signed_unfold)
  then show ?thesis
    by (simp add: T narrow_signed_eq numeric_limits_min_def setstate_failbit_def
        static_cast_representable representable_def)
qed

text \<open>
  The texts \<^verbatim>\<open>200\<close>, \<^verbatim>\<open>-200\<close>, \<^verbatim>\<open>127\<close> and \<^verbatim>\<open>-128\<close> read into an 8-bit signed
  target: two clamps with failure, two exact limits without.
\<close>

theorem signed_narrowing_witness:
  "integral_io_wrapper_input Int8 0 \<lparr>buf = ''200'', failbit = False\<rparr>
     = Some (127, \<lparr>buf = [], failbit = True\<rparr>)
   \<and> integral_io_wrapper_input Int8 0 \<lparr>buf = ''-200'', failbit = False\<rparr>
     = Some (- 128, \<lparr>buf = [], failbit = True\<rparr>)
   \<and> integral_io_wrapper_input Int8 0 \<lparr>buf = ''127'', failbit = False\<rparr>
     = Some (127, \<lparr>buf = [], failbit = False\<rparr>)
   \<and> integral_io_wrapper_input Int8 0 \<lparr>buf = ''-128'', failbit = False\<rparr>
     = Some (- 128, \<lparr>buf = [], failbit = False\<rparr>)"
proof -
  have over: "istream_extract Int16 \<lparr>buf = ''200'', failbit = False\<rparr>
      = (Some 200, \<lparr>buf = [], failbit = False\<rparr>)"
    by (simp add: istream_extract_def is_digit_def digit_val_def numeric_limits_min_def)
  have under: "istream_extract Int16 \<lparr>buf = ''-200'', failbit = False\<rparr>
      = (Some (- 200), \<lparr>buf = [], failbit = False\<rparr>)"
    by (simp add: istream_extract_def is_digit_def digit_val_def numeric_limits_min_def)
  have top: "istream_extract Int16 \<lparr>buf = ''127'', failbit = False\<rparr>
      = (Some 127, \<lparr>buf = [], failbit = False\<rparr>)"
    by (simp add: istream_extract_def is_digit_def digit_val_def numeric_limits_min_def)
  have bottom: "istream_extract Int16 \<lparr>buf = ''-128'', failbit = False\<rparr>
      = (Some (- 128), \<lparr>buf = [], failbit = False\<rparr>)"
    by (simp add: istream_extract_def is_digit_def digit_val_def numeric_limits_min_def)
  show ?thesis
    using signed_narrowing [of Int8, OF _ _ over, of 0]
      signed_narrowing [of Int8, OF _ _ under, of 0]
      signed_narrowing [of Int8, OF _ _ top, of 0]
      signed_narrowing [of Int8, OF _ _ bottom, of 0]
    by (simp add: numeric_limits_min_def)
qed

subsection \<open>Clamping into an unsigned byte\<close>

text \<open>
  Claim C3. For a one-byte unsigned target \<open>T\<close> and a buffer \<open>b\<close> read by the stream,
  the target becomes \<open>max T\<close> and \<^verbatim>\<open>failbit\<close> is set both when \<open>b > max T\<close> and when
  \<open>b\<close> is negative with a magnitude above \<open>max T\<close>.
\<close>

theorem unsigned_clamp:
  assumes "size_of T = 1" and "\<not> is_signed T"
    and "istream_extract Int16 is = (Some b, is')"
    and "numeric_limits_max T < b \<or> (b < 0 \<and> numeric_limits_max T < - b)"
  shows "integral_io_wrapper_input T m_value is
           = Some (numeric_limits_max T, is'\<lparr>failbit := True\<rparr>)"
proof -
  from assms(1,2) have T: "T = Bool \<or> T = UInt8"
    by (rule one_byte_unsigned)
  have range: "representable Int16 b"
    using assms(3) by (rule extract_Int16_range)
  have "integral_io_wrapper_input T m_value is = narrow_unsigned T b is'"
    using assms(1-3) by (rule input_unsigned_unfold)
  also have "\<dots> = Some (numeric_limits_max T, is'\<lparr>failbit := True\<rparr>)"
    using assms(4) T by (auto simp: narrow_unsigned_eq [OF T range] setstate_failbit_def)
  finally show ?thesis .
qed

text \<open>
  The texts \<^verbatim>\<open>300\<close> and \<^verbatim>\<open>-256\<close> read into an 8-bit unsigned target both give 255
  with failure.
\<close>

theorem unsigned_clamp_witness:
  "integral_io_wrapper_input UInt8 0 \<lparr>buf = ''300'', failbit = False\<rparr>
     = Some (255, \<lparr>buf = [], failbit = True\<rparr>)
   \<and> integral_io_wrapper_input UInt8 0 \<lparr>buf = ''-256'', failbit = False\<rparr>
     = Some (255, \<lparr>buf = [], failbit = True\<rparr>)"
proof -
  have over: "istream_extract Int16 \<lparr>buf = ''300'', failbit = False\<rparr>
      = (Some 300, \<lparr>buf = [], failbit = False\<rparr>)"
    by (simp add: istream_extract_def is_digit_def digit_val_def numeric_limits_min_def)
  have under: "istream_extract Int16 \<lparr>buf = ''-256'', failbit = False\<rparr>
      = (Some (- 256), \<lparr>buf = [], failbit = False\<rparr>)"
    by (simp add: istream_extract_def is_digit_def digit_val_def numeric_limits_min_def)
  show ?thesis
    using unsigned_clamp [of UInt8, OF _ _ over, of 0]
      unsigned_clamp [of UInt8, OF _ _ under, of 0]
    by simp
qed

subsection \<open>A failure of the read\<close>




subsection \<open>The classifier\<close>

text \<open>
  Claim C5 says that the width classifier yields a signed 16-bit type for a one-byte
  unsigned type. The specialisation for unsigned one-byte types yields
  \<^verbatim>\<open>std::uint16_t\<close>: the classifier of \<^verbatim>\<open>unsigned char\<close> is not the signed 16-bit type.
\<close>

theorem trait_unsigned_counterexample:
  "size_of UInt8 = 1 \<and> \<not> is_signed UInt8 \<and> integral_io_trait UInt8 \<noteq> Int16"
  by (simp add: integral_io_trait_def)

text \<open>
  Claim C5, amended. The width classifier yields the type itself when it is wider
  than one byte, the signed 16-bit type for a signed one-byte type and the unsigned
  16-bit type for an unsigned one-byte type; every integral type falls under one of
  these cases, and the classifier is a function of the type.
\<close>

theorem trait_cases:
  "(1 < size_of T \<longrightarrow> integral_io_trait T = T)
   \<and> (size_of T = 1 \<and> is_signed T \<longrightarrow> integral_io_trait T = Int16)
   \<and> (size_of T = 1 \<and> \<not> is_signed T \<longrightarrow> integral_io_trait T = UInt16)
   \<and> (1 < size_of T \<or> size_of T = 1)"
  by (cases T) (simp_all add: integral_io_trait_def)

text \<open>
  One type of each case.
\<close>

theorem trait_cases_witness:
  "integral_io_trait Int32 = Int32 \<and> integral_io_trait Int8 = Int16
   \<and> integral_io_trait UInt8 = UInt16 \<and> integral_io_trait Bool = UInt16"
  using trait_cases [of Int32] trait_cases [of Int8] trait_cases [of UInt8] trait_cases [of Bool]
  by simp

subsection \<open>Round trip of the wide types\<close>

text \<open>
  Claim C6. For an integral type \<open>T\<close> wider than one byte and a representable value
  \<open>v\<close>, parsing the text that either view writes for \<open>v\<close> into a target of type \<open>T\<close>
  stores \<open>v\<close> itself, consumes the text and sets no failure, whatever the target held
  before.
\<close>

theorem wide_round_trip:
  assumes "1 < size_of T" and "representable T v"
  shows "integral_io_wrapper_input T m_value
           \<lparr>buf = written (integral_io_wrapper_output T v \<lparr>written = []\<rparr>), failbit = False\<rparr>
         = Some (v, \<lparr>buf = [], failbit = False\<rparr>)
       \<and> integral_io_wrapper_input T m_value
           \<lparr>buf = written (integral_output_wrapper_output T v \<lparr>written = []\<rparr>), failbit = False\<rparr>
         = Some (v, \<lparr>buf = [], failbit = False\<rparr>)"
proof -
  from assms(1) have wide: "size_of T \<noteq> 1" "T \<noteq> Int8" "T \<noteq> UInt8"
    by auto
  then have numeral: "written (integral_io_wrapper_output T v \<lparr>written = []\<rparr>) = decimal v"
    "written (integral_output_wrapper_output T v \<lparr>written = []\<rparr>) = decimal v"
    by (simp_all add: integral_io_wrapper_output_def integral_output_wrapper_output_def
        ostream_insert_def)
  have "integral_io_wrapper_input T m_value \<lparr>buf = decimal v, failbit = False\<rparr>
      = Some (v, \<lparr>buf = [], failbit = False\<rparr>)"
    using wide(1) by (simp add: integral_io_wrapper_input_def input_generic_def
        extract_decimal [OF assms(2)])
  with numeral show ?thesis by simp
qed

text \<open>
  The most negative 32-bit value.
\<close>

theorem wide_round_trip_witness:
  "1 < size_of Int32 \<and> representable Int32 (- 2147483648)
   \<and> integral_io_wrapper_input Int32 0
        \<lparr>buf = written (integral_io_wrapper_output Int32 (- 2147483648) \<lparr>written = []\<rparr>),
         failbit = False\<rparr>
       = Some (- 2147483648, \<lparr>buf = [], failbit = False\<rparr>)"
proof -
  have h: "1 < size_of Int32" "representable Int32 (- 2147483648)"
    by (simp_all add: representable_def numeric_limits_min_def)
  show ?thesis
    using h wide_round_trip [OF h, of 0] by simp
qed

subsection \<open>Numerals, not characters\<close>

text \<open>
  Claim C7. For a one-byte type \<open>T\<close> and a representable value \<open>v\<close>, both views append
  the decimal numeral of \<open>v\<close> to the output, and that text is never the single
  character whose code is \<open>v\<close>.
\<close>

theorem one_byte_decimal_text:
  assumes "size_of T = 1" and "representable T v"
  shows "written (integral_output_wrapper_output T v os) = written os @ decimal v
       \<and> written (integral_io_wrapper_output T v os) = written os @ decimal v
       \<and> decimal v \<noteq> glyph v"
  using output_wrapper_one_byte [OF assms] io_wrapper_one_byte [OF assms] decimal_not_glyph
  by simp

text \<open>
  The unsigned 8-bit value 65 is written as the two characters 6 and 5, not as the
  letter A.
\<close>

theorem one_byte_decimal_text_witness:
  "written (integral_output_wrapper_output UInt8 65 \<lparr>written = []\<rparr>) = ''65''
   \<and> written (integral_io_wrapper_output UInt8 65 \<lparr>written = []\<rparr>) = ''65''
   \<and> ''65'' \<noteq> ''A'' \<and> glyph 65 = ''A''"
proof -
  have h: "size_of UInt8 = 1" "representable UInt8 65"
    by (simp_all add: representable_def numeric_limits_min_def)
  have d: "decimal 65 = ''65''"
    by code_simp
  have g: "glyph 65 = ''A''"
    by code_simp
  show ?thesis
    using one_byte_decimal_text [OF h, of "\<lparr>written = []\<rparr>"] d g by simp
qed

subsection \<open>Clamped values parse back\<close>

text \<open>
  Claim C8. When a parse into a one-byte target \<open>T\<close> ends with \<^verbatim>\<open>failbit\<close> set and the
  target at \<open>max T\<close> or \<open>min T\<close>, parsing the text that the formatter writes for that
  value into a target of type \<open>T\<close> stores the same value, consumes the text and sets no
  failure.
\<close>

theorem clamped_reparse:
  assumes "size_of T = 1"
    and "integral_io_wrapper_input T m_value is = Some (v, is')" and "failbit is'"
    and "v = numeric_limits_max T \<or> v = numeric_limits_min T"
  shows "integral_io_wrapper_input T m_value'
           \<lparr>buf = written (integral_io_wrapper_output T v \<lparr>written = []\<rparr>), failbit = False\<rparr>
         = Some (v, \<lparr>buf = [], failbit = False\<rparr>)"
proof -
  have r: "representable T v"
    using assms(4) limits_representable [of T] by auto
  show ?thesis
    by (simp add: io_wrapper_one_byte [OF assms(1) r] reparse_one_byte [OF assms(1) r])
qed

text \<open>
  The text \<^verbatim>\<open>300\<close> clamps an 8-bit unsigned target to 255; the text of 255 parses
  to 255 without failure.
\<close>

theorem clamped_reparse_witness:
  "integral_io_wrapper_input UInt8 0 \<lparr>buf = ''300'', failbit = False\<rparr>
     = Some (255, \<lparr>buf = [], failbit = True\<rparr>)
   \<and> integral_io_wrapper_input UInt8 0
        \<lparr>buf = written (integral_io_wrapper_output UInt8 255 \<lparr>written = []\<rparr>), failbit = False\<rparr>
     = Some (255, \<lparr>buf = [], failbit = False\<rparr>)"
proof -
  have clamp: "integral_io_wrapper_input UInt8 0 \<lparr>buf = ''300'', failbit = False\<rparr>
      = Some (255, \<lparr>buf = [], failbit = True\<rparr>)"
    by (simp add: integral_io_wrapper_input_def input_unsigned_def istream_extract_def
        is_digit_def digit_val_def narrow_unsigned_def static_cast_def setstate_failbit_def
        numeric_limits_min_def)
  show ?thesis
    using clamp clamped_reparse [of UInt8, OF _ clamp, of 0] by simp
qed

subsection \<open>The two views write the same text\<close>

text \<open>
  Claim C9. For a one-byte unsigned type \<open>T\<close> and a value \<open>v\<close> from 0 to \<open>max T\<close>, the
  write view, which converts \<open>v\<close> to the classifier's type (the unsigned 16-bit type),
  and the read/write view, which converts \<open>v\<close> to the signed 16-bit type, leave the
  output stream in the same state.
\<close>

theorem views_same_text:
  assumes "size_of T = 1" and "\<not> is_signed T"
    and "0 \<le> v" and "v \<le> numeric_limits_max T"
  shows "integral_output_wrapper_output T v os = integral_io_wrapper_output T v os
       \<and> integral_io_trait T = UInt16"
proof -
  have r: "representable T v"
    using assms(2-4) by (simp add: representable_def numeric_limits_min_def)
  have "written (integral_output_wrapper_output T v os) = written (integral_io_wrapper_output T v os)"
    by (simp add: output_wrapper_one_byte [OF assms(1) r] io_wrapper_one_byte [OF assms(1) r])
  then show ?thesis
    using assms(1,2) by (simp add: integral_io_trait_def)
qed

text \<open>
  The value 255 after some earlier output.
\<close>

theorem views_same_text_witness:
  "integral_output_wrapper_output UInt8 255 \<lparr>written = ''x''\<rparr>
     = integral_io_wrapper_output UInt8 255 \<lparr>written = ''x''\<rparr>"
  using views_same_text [of UInt8 255 "\<lparr>written = ''x''\<rparr>"] by simp

subsection \<open>The unsigned narrowing is total\<close>

text \<open>
  Claim C10. For a one-byte unsigned target \<open>T\<close> and every buffer value \<open>b\<close> of the
  signed 16-bit range, the product \<open>b * -1\<close> is computed in \<^verbatim>\<open>int\<close> without overflow;
  exactly one of the four branches (clamp of a too large value, wrap-around, clamp of
  a negative value of large magnitude, exact fit) applies, with the result of that
  branch; and the narrowing is defined and leaves a value representable in \<open>T\<close> in the
  target.
\<close>

theorem unsigned_narrowing_total:
  assumes "size_of T = 1" and "\<not> is_signed T" and "representable Int16 b"
  shows "int_mul b (- 1) = Some (- b)
       \<and> count_list
           [numeric_limits_max T < b
              \<and> narrow_unsigned T b is = Some (numeric_limits_max T, is\<lparr>failbit := True\<rparr>),
            b < 0 \<and> - b \<le> numeric_limits_max T
              \<and> narrow_unsigned T b is = Some (numeric_limits_max T + b + 1, is),
            b < 0 \<and> numeric_limits_max T < - b
              \<and> narrow_unsigned T b is = Some (numeric_limits_max T, is\<lparr>failbit := True\<rparr>),
            0 \<le> b \<and> b \<le> numeric_limits_max T
              \<and> narrow_unsigned T b is = Some (b, is)] True = 1
       \<and> (\<exists>v is'. narrow_unsigned T b is = Some (v, is') \<and> representable T v)"
proof -
  from assms(1,2) have T: "T = Bool \<or> T = UInt8"
    by (rule one_byte_unsigned)
  have mul: "int_mul b (- 1) = Some (- b)"
    using assms(3) by (simp add: int_mul_def representable_def numeric_limits_min_def)
  note eq = narrow_unsigned_eq [OF T assms(3), of "is"]
  have branches: "count_list
           [numeric_limits_max T < b
              \<and> narrow_unsigned T b is = Some (numeric_limits_max T, is\<lparr>failbit := True\<rparr>),
            b < 0 \<and> - b \<le> numeric_limits_max T
              \<and> narrow_unsigned T b is = Some (numeric_limits_max T + b + 1, is),
            b < 0 \<and> numeric_limits_max T < - b
              \<and> narrow_unsigned T b is = Some (numeric_limits_max T, is\<lparr>failbit := True\<rparr>),
            0 \<le> b \<and> b \<le> numeric_limits_max T
              \<and> narrow_unsigned T b is = Some (b, is)] True = 1"
    using T by (auto simp: eq setstate_failbit_def)
  have "\<exists>v is'. narrow_unsigned T b is = Some (v, is') \<and> representable T v"
    using T by (auto simp: eq representable_def numeric_limits_min_def)
  with mul branches show ?thesis by blast
qed

text \<open>
  The most negative buffer value, \<open>-32768\<close>: its magnitude 32768 is computed, and the
  target is clamped to 255.
\<close>

theorem unsigned_narrowing_total_witness:
  "representable Int16 (- 32768)
   \<and> int_mul (- 32768) (- 1) = Some 32768
   \<and> narrow_unsigned UInt8 (- 32768) \<lparr>buf = [], failbit = False\<rparr>
       = Some (255, \<lparr>buf = [], failbit = True\<rparr>)"
proof -
  have h: "representable Int16 (- 32768)"
    by (simp add: representable_def numeric_limits_min_def)
  show ?thesis
    using h unsigned_narrowing_total [of UInt8, OF _ _ h, of "\<lparr>buf = [], failbit = False\<rparr>"]
    by (auto split: if_splits)
qed

end
